theory Spec2Isabelle
  imports Main "HOL-Library.Word"
begin

section \<open>The document storage gateway of lms-fullstack\<close>

text \<open>
  The repository holds two modules with the same exports over one object store:
  \<^verbatim>\<open>src/lib/minio/mini-io-client.ts\<close> (direct transfer: the server puts and streams
  the bytes itself) and \<^verbatim>\<open>src/lib/minio/minio-client.ts\<close> (presigned URLs: the
  bytes travel over HTTP to a signed URL). Both are sequences of calls to the
  \<^verbatim>\<open>minio\<close> client, to \<^verbatim>\<open>fetch\<close> and to \<^verbatim>\<open>uuid\<close>'s \<^verbatim>\<open>v4\<close>. Those three are
  third-party code: they are parameters of the model (a record of functions over the
  state of the outside world), and the gateway functions are translated call by call.
\<close>

subsection \<open>Values\<close>

type_synonym bytes = "8 word list"

text \<open>A browser \<^verbatim>\<open>File\<close>: its bytes and its declared MIME type (\<^verbatim>\<open>file.type\<close>).\<close>

record File =
  content :: bytes
  file_type :: string

text \<open>
  \<^verbatim>\<open>process.env\<close>: the two variables the gateway functions read. Both are taken as
  set, as the modules' \<^verbatim>\<open>as string\<close> casts assume (an unset \<^verbatim>\<open>MINIO_URL\<close> already makes
  \<^verbatim>\<open>new URL\<close> throw when the module is loaded).
\<close>

record env =
  MINIO_URL :: string
  MINIO_BUCKET :: string

text \<open>\<^verbatim>\<open>BucketItemStat\<close>, the fields the gateway reads: \<^verbatim>\<open>stat.size\<close> and \<^verbatim>\<open>stat.metaData\<close>.\<close>

record stat =
  stat_size :: nat
  metaData :: "(string \<times> string) list"

text \<open>
  The readable stream of \<^verbatim>\<open>getObject\<close>: the chunks of its \<^verbatim>\<open>data\<close> events, then
  either \<^verbatim>\<open>end\<close> (\<open>None\<close>) or \<^verbatim>\<open>error\<close> with the error it carries.
\<close>

record 'e stream =
  chunks :: "bytes list"
  stream_error :: "'e option"

datatype http_method = GET | PUT

text \<open>The arguments of a \<^verbatim>\<open>fetch\<close> call: \<^verbatim>\<open>fetch(url, {method, body, headers})\<close>.\<close>

record request =
  req_url :: string
  req_method :: http_method
  req_body :: "bytes option"
  req_headers :: "(string \<times> string) list"

text \<open>
  A \<^verbatim>\<open>Response\<close>: its status, and what \<^verbatim>\<open>response.arrayBuffer()\<close> settles to.
\<close>

record 'e response =
  status :: nat
  arrayBuffer :: "'e + bytes"

text \<open>\<^verbatim>\<open>IUploadResponse\<close> and \<^verbatim>\<open>IDocumentMetadata\<close> of minio-client.ts.\<close>

record IUploadResponse =
  docId :: string
  url :: string

record IDocumentMetadata =
  contentType :: string
  md_size :: nat

text \<open>The result of \<^verbatim>\<open>readDocument\<close>.\<close>

record document =
  data :: bytes
  doc_contentType :: string

text \<open>
  A thrown value: \<open>Error msg\<close> is \<^verbatim>\<open>new Error(msg)\<close>, made by the gateway itself, with
  no cause attached; \<open>External e\<close> is the value \<open>e\<close> that the store client or
  \<^verbatim>\<open>fetch\<close> threw, unchanged.
\<close>

datatype 'e thrown = Error string | External 'e

subsection \<open>The outside world\<close>

text \<open>Every call that leaves the process, with its arguments, in the order made.\<close>

datatype call =
    PutObject string string bytes nat "(string \<times> string) list"
  | GetObject string string
  | StatObject string string
  | RemoveObject string string
  | PresignedPutObject string string int
  | PresignedGetObject string string int
  | Fetch request

text \<open>
  The world a gateway function runs in: the state \<open>store\<close> of the object store, the
  number of identifiers drawn from \<^verbatim>\<open>v4\<close> so far, the calls made, and the lines
  written with \<^verbatim>\<open>console.error\<close> (a label and the error logged).
\<close>

record ('s, 'e) world =
  store :: 's
  draws :: nat
  trace :: "call list"
  console :: "(string \<times> 'e thrown) list"

text \<open>
  The third-party functions. Each store call takes the state of the store and returns
  either the error it throws or its result, with the state after it. \<open>v4 n\<close> is the
  \<open>n\<close>-th identifier that \<^verbatim>\<open>uuid\<close>'s generator hands out.
\<close>

record ('s, 'e) platform =
  v4 :: "nat \<Rightarrow> string"
  putObject :: "string \<Rightarrow> string \<Rightarrow> bytes \<Rightarrow> nat \<Rightarrow> (string \<times> string) list \<Rightarrow> 's \<Rightarrow> ('e + unit) \<times> 's"
  getObject :: "string \<Rightarrow> string \<Rightarrow> 's \<Rightarrow> ('e + 'e stream) \<times> 's"
  statObject :: "string \<Rightarrow> string \<Rightarrow> 's \<Rightarrow> ('e + stat) \<times> 's"
  removeObject :: "string \<Rightarrow> string \<Rightarrow> 's \<Rightarrow> ('e + unit) \<times> 's"
  presignedPutObject :: "string \<Rightarrow> string \<Rightarrow> int \<Rightarrow> 's \<Rightarrow> ('e + string) \<times> 's"
  presignedGetObject :: "string \<Rightarrow> string \<Rightarrow> int \<Rightarrow> 's \<Rightarrow> ('e + string) \<times> 's"
  fetch :: "request \<Rightarrow> 's \<Rightarrow> ('e + 'e response) \<times> 's"

subsection \<open>Async functions as state passing with errors\<close>

type_synonym ('a, 's, 'e) prog = "('s, 'e) world \<Rightarrow> ('e thrown + 'a) \<times> ('s, 'e) world"

definition resolve :: "'a \<Rightarrow> ('a, 's, 'e) prog" where
  "resolve x w = (Inr x, w)"

definition throw :: "'e thrown \<Rightarrow> ('a, 's, 'e) prog" where
  "throw x w = (Inl x, w)"

text \<open>\<^verbatim>\<open>const x = await m; f(x)\<close>: a rejection of \<open>m\<close> skips \<open>f\<close>.\<close>

definition await :: "('a, 's, 'e) prog \<Rightarrow> ('a \<Rightarrow> ('b, 's, 'e) prog) \<Rightarrow> ('b, 's, 'e) prog" where
  "await m f w = (case m w of (Inl x, w') \<Rightarrow> (Inl x, w') | (Inr a, w') \<Rightarrow> f a w')"

text \<open>\<^verbatim>\<open>try { m } catch (error) { h(error) }\<close>.\<close>

definition try_catch :: "('a, 's, 'e) prog \<Rightarrow> ('e thrown \<Rightarrow> ('a, 's, 'e) prog) \<Rightarrow> ('a, 's, 'e) prog" where
  "try_catch m h w = (case m w of (Inl x, w') \<Rightarrow> h x w' | (Inr a, w') \<Rightarrow> (Inr a, w'))"

definition console_error :: "string \<Rightarrow> 'e thrown \<Rightarrow> (unit, 's, 'e) prog" where
  "console_error label x w = (Inr (), w\<lparr>console := console w @ [(label, x)]\<rparr>)"

text \<open>
  A call to the store client or to \<^verbatim>\<open>fetch\<close>: it is recorded in the trace, runs on
  the store, and what it throws reaches the caller as it is.
\<close>

definition external :: "call \<Rightarrow> ('s \<Rightarrow> ('e + 'a) \<times> 's) \<Rightarrow> ('a, 's, 'e) prog" where
  "external c f w =
     (case f (store w) of
        (Inl e, s') \<Rightarrow> (Inl (External e), w\<lparr>store := s', trace := trace w @ [c]\<rparr>)
      | (Inr a, s') \<Rightarrow> (Inr a, w\<lparr>store := s', trace := trace w @ [c]\<rparr>))"

text \<open>\<^verbatim>\<open>v4()\<close>: the next identifier of the generator.\<close>

definition uuid_v4 :: "('s, 'e) platform \<Rightarrow> (string, 's, 'e) prog" where
  "uuid_v4 P w = (Inr (v4 P (draws w)), w\<lparr>draws := Suc (draws w)\<rparr>)"

text \<open>
  \<^verbatim>\<open>stat.metaData["content-type"] || "application/octet-stream"\<close>: JavaScript's \<^verbatim>\<open>||\<close>
  takes the right operand when the left one is falsy, which for a metadata value is
  \<^verbatim>\<open>undefined\<close> (no such key) or the empty string.
\<close>

definition js_or :: "string option \<Rightarrow> string \<Rightarrow> string" where
  "js_or v d = (case v of None \<Rightarrow> d | Some s \<Rightarrow> if s = [] then d else s)"

text \<open>
  The promise around the stream in \<^verbatim>\<open>readDocument\<close> of mini-io-client.ts: the chunks
  are pushed to an array, \<^verbatim>\<open>end\<close> resolves with \<^verbatim>\<open>Buffer.concat(chunks)\<close>, \<^verbatim>\<open>error\<close>
  rejects with the stream's error.
\<close>

definition collect :: "'e stream \<Rightarrow> (bytes, 's, 'e) prog" where
  "collect st =
     (case stream_error st of
        Some err \<Rightarrow> throw (External err)
      | None \<Rightarrow> resolve (concat (chunks st)))"

text \<open>\<^verbatim>\<open>await response.arrayBuffer()\<close>.\<close>

definition response_arrayBuffer :: "'e response \<Rightarrow> (bytes, 's, 'e) prog" where
  "response_arrayBuffer r =
     (case arrayBuffer r of Inl e \<Rightarrow> throw (External e) | Inr b \<Rightarrow> resolve b)"

text \<open>
  The two requests the presigned module sends:
  \<^verbatim>\<open>fetch(url, {method: "PUT", body: file, headers: {"Content-Type": file.type}})\<close> and
  \<^verbatim>\<open>fetch(url)\<close>.
\<close>

abbreviation put_request :: "string \<Rightarrow> File \<Rightarrow> request" where
  "put_request u f \<equiv>
     \<lparr>req_url = u, req_method = PUT, req_body = Some (content f),
      req_headers = [(''Content-Type'', file_type f)]\<rparr>"

abbreviation get_request :: "string \<Rightarrow> request" where
  "get_request u \<equiv> \<lparr>req_url = u, req_method = GET, req_body = None, req_headers = []\<rparr>"

subsection \<open>mini-io-client.ts: direct transfer\<close>

definition direct_createDocument :: "('s, 'e) platform \<Rightarrow> env \<Rightarrow> File \<Rightarrow> (string, 's, 'e) prog" where
  "direct_createDocument P E f =
     await (uuid_v4 P) (\<lambda>docId.
     await (external
              (PutObject (MINIO_BUCKET E) docId (content f) (length (content f))
                 [(''Content-Type'', file_type f)])
              (putObject P (MINIO_BUCKET E) docId (content f) (length (content f))
                 [(''Content-Type'', file_type f)])) (\<lambda>_.
     resolve docId))"

definition direct_getDocumentUrl :: "env \<Rightarrow> string \<Rightarrow> (string, 's, 'e) prog" where
  "direct_getDocumentUrl E = (\<lambda>docId.
     resolve (MINIO_URL E @ ''/'' @ MINIO_BUCKET E @ ''/'' @ docId))"

definition direct_readDocument :: "('s, 'e) platform \<Rightarrow> env \<Rightarrow> string \<Rightarrow> (document, 's, 'e) prog" where
  "direct_readDocument P E = (\<lambda>docId.
     await (external (GetObject (MINIO_BUCKET E) docId) (getObject P (MINIO_BUCKET E) docId)) (\<lambda>stream.
     await (collect stream) (\<lambda>d.
     await (external (StatObject (MINIO_BUCKET E) docId) (statObject P (MINIO_BUCKET E) docId)) (\<lambda>st.
     resolve \<lparr>data = d,
       doc_contentType = js_or (map_of (metaData st) ''content-type'') ''application/octet-stream''\<rparr>))))"

definition direct_deleteDocument :: "('s, 'e) platform \<Rightarrow> env \<Rightarrow> string \<Rightarrow> (unit, 's, 'e) prog" where
  "direct_deleteDocument P E = (\<lambda>docId.
     external (RemoveObject (MINIO_BUCKET E) docId) (removeObject P (MINIO_BUCKET E) docId))"

subsection \<open>minio-client.ts: presigned URLs\<close>

text \<open>A parameter with a default, \<^verbatim>\<open>expirySeconds = 3600\<close>: \<open>None\<close> is the omitted argument.\<close>

definition expiry_or_default :: "int option \<Rightarrow> int" where
  "expiry_or_default x = (case x of None \<Rightarrow> 3600 | Some n \<Rightarrow> n)"

definition createDocument ::
  "('s, 'e) platform \<Rightarrow> env \<Rightarrow> File \<Rightarrow> int option \<Rightarrow> (IUploadResponse, 's, 'e) prog" where
  "createDocument P E f expirySeconds =
     try_catch
       (await (uuid_v4 P) (\<lambda>docId.
        await (external
                 (PresignedPutObject (MINIO_BUCKET E) docId (expiry_or_default expirySeconds))
                 (presignedPutObject P (MINIO_BUCKET E) docId (expiry_or_default expirySeconds))) (\<lambda>u.
        await (external
                 (Fetch (put_request u f))
                 (fetch P (put_request u f))) (\<lambda>_.
        resolve \<lparr>docId = docId, url = MINIO_URL E @ ''/'' @ MINIO_BUCKET E @ ''/'' @ docId\<rparr>))))
       (\<lambda>error.
        await (console_error ''Error creating document:'' error) (\<lambda>_.
        throw (Error ''Failed to create document'')))"

definition getDocumentUrl ::
  "('s, 'e) platform \<Rightarrow> env \<Rightarrow> string \<Rightarrow> int option \<Rightarrow> (string, 's, 'e) prog" where
  "getDocumentUrl P E = (\<lambda>docId expirySeconds.
     try_catch
       (await (external
                 (PresignedGetObject (MINIO_BUCKET E) docId (expiry_or_default expirySeconds))
                 (presignedGetObject P (MINIO_BUCKET E) docId (expiry_or_default expirySeconds))) (\<lambda>u.
        resolve u))
       (\<lambda>error.
        await (console_error ''Error getting document URL:'' error) (\<lambda>_.
        throw (Error ''Failed to get document URL''))))"

definition readDocument :: "('s, 'e) platform \<Rightarrow> env \<Rightarrow> string \<Rightarrow> (document, 's, 'e) prog" where
  "readDocument P E = (\<lambda>docId.
     try_catch
       (await (external (StatObject (MINIO_BUCKET E) docId) (statObject P (MINIO_BUCKET E) docId)) (\<lambda>st.
        await (external (PresignedGetObject (MINIO_BUCKET E) docId 60)
                 (presignedGetObject P (MINIO_BUCKET E) docId 60)) (\<lambda>u.
        await (external
                 (Fetch (get_request u))
                 (fetch P (get_request u))) (\<lambda>response.
        await (response_arrayBuffer response) (\<lambda>d.
        resolve \<lparr>data = d,
          doc_contentType = js_or (map_of (metaData st) ''content-type'') ''application/octet-stream''\<rparr>)))))
       (\<lambda>error.
        await (console_error ''Error reading document:'' error) (\<lambda>_.
        throw (Error ''Failed to read document''))))"

definition deleteDocument :: "('s, 'e) platform \<Rightarrow> env \<Rightarrow> string \<Rightarrow> (unit, 's, 'e) prog" where
  "deleteDocument P E = (\<lambda>docId.
     try_catch
       (external (RemoveObject (MINIO_BUCKET E) docId) (removeObject P (MINIO_BUCKET E) docId))
       (\<lambda>error.
        await (console_error ''Error deleting document:'' error) (\<lambda>_.
        throw (Error ''Failed to delete document''))))"

definition getDocumentMetadata ::
  "('s, 'e) platform \<Rightarrow> env \<Rightarrow> string \<Rightarrow> (IDocumentMetadata, 's, 'e) prog" where
  "getDocumentMetadata P E = (\<lambda>docId.
     try_catch
       (await (external (StatObject (MINIO_BUCKET E) docId) (statObject P (MINIO_BUCKET E) docId)) (\<lambda>st.
        resolve \<lparr>contentType = js_or (map_of (metaData st) ''content-type'') ''application/octet-stream'',
          md_size = stat_size st\<rparr>))
       (\<lambda>error.
        await (console_error ''Error getting document metadata:'' error) (\<lambda>_.
        throw (Error ''Failed to get document metadata''))))"

definition documentExists :: "('s, 'e) platform \<Rightarrow> env \<Rightarrow> string \<Rightarrow> (bool, 's, 'e) prog" where
  "documentExists P E = (\<lambda>docId.
     try_catch
       (await (external (StatObject (MINIO_BUCKET E) docId) (statObject P (MINIO_BUCKET E) docId)) (\<lambda>_.
        resolve True))
       (\<lambda>error.
        await (console_error ''Error checking document existence:'' error) (\<lambda>_.
        resolve False)))"

subsection \<open>An object store that keeps what was put\<close>

text \<open>
  The store itself is a service outside the repository. Where a property needs to know
  what the store answers, it is stated against this reference store: a map from bucket
  and key to the bytes and the content type that were put, with the behaviour of an
  S3-compatible service. A missing key makes \<^verbatim>\<open>getObject\<close> and \<^verbatim>\<open>statObject\<close> fail with
  \<open>NoSuchKey\<close>; removing a missing key succeeds; signing never fails. A signed URL is
  remembered with the request it grants (method, bucket, key, expiry), and a
  \<^verbatim>\<open>fetch\<close> of a URL is served when the store has granted it for that method: a
  \<^verbatim>\<open>PUT\<close> stores the body under the \<^verbatim>\<open>Content-Type\<close> header of the request, a
  \<^verbatim>\<open>GET\<close> answers the stored bytes. Any other request is answered with status 403, a
  \<^verbatim>\<open>GET\<close> of a missing key with 404. Time does not pass: no grant expires.
  \<^verbatim>\<open>getObject\<close> streams the stored bytes in chunks.
\<close>

datatype s3_error = NoSuchKey | AccessDenied

record object =
  body :: bytes
  meta :: "(string \<times> string) list"

record s3 =
  objects :: "((string \<times> string) \<times> object) list"
  grants :: "(string \<times> http_method \<times> string \<times> string \<times> int) list"
  chunk_size :: nat

text \<open>
  The store streams an object in pieces of \<open>chunk_size\<close> bytes, the last one shorter
  (one piece when \<open>chunk_size\<close> is 0, none for an empty object).
\<close>

function chunked :: "nat \<Rightarrow> 'a list \<Rightarrow> 'a list list" where
  "chunked n xs =
     (if xs = [] then []
      else if n = 0 \<or> length xs \<le> n then [xs]
      else take n xs # chunked n (drop n xs))"
  by pat_completeness auto
termination
  by (relation "measure (\<lambda>(n, xs). length xs)") auto

declare chunked.simps [simp del]

definition s3_store :: "string \<Rightarrow> string \<Rightarrow> bytes \<Rightarrow> (string \<times> string) list \<Rightarrow> s3 \<Rightarrow> s3" where
  "s3_store b k bs headers s =
     s\<lparr>objects :=
         ((b, k), \<lparr>body = bs,
                   meta = (case map_of headers ''Content-Type'' of
                             None \<Rightarrow> []
                           | Some t \<Rightarrow> [(''content-type'', t)])\<rparr>) # objects s\<rparr>"

definition s3_putObject ::
  "string \<Rightarrow> string \<Rightarrow> bytes \<Rightarrow> nat \<Rightarrow> (string \<times> string) list \<Rightarrow> s3 \<Rightarrow> (s3_error + unit) \<times> s3" where
  "s3_putObject b k bs n headers s = (Inr (), s3_store b k (take n bs) headers s)"

definition s3_getObject :: "string \<Rightarrow> string \<Rightarrow> s3 \<Rightarrow> (s3_error + s3_error stream) \<times> s3" where
  "s3_getObject b k s =
     (case map_of (objects s) (b, k) of
        None \<Rightarrow> (Inl NoSuchKey, s)
      | Some ob \<Rightarrow> (Inr \<lparr>chunks = chunked (chunk_size s) (body ob), stream_error = None\<rparr>, s))"

definition s3_statObject :: "string \<Rightarrow> string \<Rightarrow> s3 \<Rightarrow> (s3_error + stat) \<times> s3" where
  "s3_statObject b k s =
     (case map_of (objects s) (b, k) of
        None \<Rightarrow> (Inl NoSuchKey, s)
      | Some ob \<Rightarrow> (Inr \<lparr>stat_size = length (body ob), metaData = meta ob\<rparr>, s))"

definition s3_removeObject :: "string \<Rightarrow> string \<Rightarrow> s3 \<Rightarrow> (s3_error + unit) \<times> s3" where
  "s3_removeObject b k s =
     (Inr (), s\<lparr>objects := filter (\<lambda>entry. fst entry \<noteq> (b, k)) (objects s)\<rparr>)"

definition method_name :: "http_method \<Rightarrow> string" where
  "method_name m = (case m of GET \<Rightarrow> ''GET'' | PUT \<Rightarrow> ''PUT'')"

definition signed_url :: "string \<Rightarrow> http_method \<Rightarrow> string \<Rightarrow> string \<Rightarrow> string" where
  "signed_url endpoint m b k =
     endpoint @ ''/'' @ b @ ''/'' @ k @ ''?X-Amz-Signature='' @ method_name m"

definition s3_presigned ::
  "string \<Rightarrow> http_method \<Rightarrow> string \<Rightarrow> string \<Rightarrow> int \<Rightarrow> s3 \<Rightarrow> (s3_error + string) \<times> s3" where
  "s3_presigned endpoint m b k expiry s =
     (Inr (signed_url endpoint m b k),
      s\<lparr>grants := (signed_url endpoint m b k, m, b, k, expiry) # grants s\<rparr>)"

definition s3_fetch :: "request \<Rightarrow> s3 \<Rightarrow> (s3_error + s3_error response) \<times> s3" where
  "s3_fetch r s =
     (case map_of (grants s) (req_url r) of
        None \<Rightarrow> (Inr \<lparr>status = 403, arrayBuffer = Inr []\<rparr>, s)
      | Some (m, b, k, expiry) \<Rightarrow>
          if m \<noteq> req_method r then (Inr \<lparr>status = 403, arrayBuffer = Inr []\<rparr>, s)
          else (case m of
                  PUT \<Rightarrow>
                    (Inr \<lparr>status = 200, arrayBuffer = Inr []\<rparr>,
                     s3_store b k (case req_body r of None \<Rightarrow> [] | Some bs \<Rightarrow> bs) (req_headers r) s)
                | GET \<Rightarrow>
                    (case map_of (objects s) (b, k) of
                       None \<Rightarrow> (Inr \<lparr>status = 404, arrayBuffer = Inr []\<rparr>, s)
                     | Some ob \<Rightarrow> (Inr \<lparr>status = 200, arrayBuffer = Inr (body ob)\<rparr>, s))))"

text \<open>The platform over the reference store, for an endpoint and an identifier generator.\<close>

definition s3_platform :: "string \<Rightarrow> (nat \<Rightarrow> string) \<Rightarrow> (s3, s3_error) platform" where
  "s3_platform endpoint gen =
     \<lparr>v4 = gen,
      putObject = s3_putObject,
      getObject = s3_getObject,
      statObject = s3_statObject,
      removeObject = s3_removeObject,
      presignedPutObject = s3_presigned endpoint PUT,
      presignedGetObject = s3_presigned endpoint GET,
      fetch = s3_fetch\<rparr>"

text \<open>A fresh process beside an empty store.\<close>

definition world0 :: "(s3, s3_error) world" where
  "world0 =
     \<lparr>store = \<lparr>objects = [], grants = [], chunk_size = 2\<rparr>,
      draws = 0, trace = [], console = []\<rparr>"

text \<open>A generator for examples: the \<open>n\<close>-th identifier ends in \<open>n\<close> letters.\<close>

definition gen0 :: "nat \<Rightarrow> string" where
  "gen0 n = ''doc-'' @ replicate n (CHR ''u'')"

definition env0 :: env where
  "env0 = \<lparr>MINIO_URL = ''https://s3.test:9000'', MINIO_BUCKET = ''docs''\<rparr>"

text \<open>The spec's precondition on the input of \<^verbatim>\<open>createDocument\<close>: a content type is present.\<close>

definition valid_file :: "File \<Rightarrow> bool" where
  "valid_file f = (file_type f \<noteq> [])"

definition file0 :: File where
  "file0 = \<lparr>content = [1, 2, 3], file_type = ''text/plain''\<rparr>"

definition platform0 :: "(s3, s3_error) platform" where
  "platform0 = s3_platform ''https://s3.test:9000'' gen0"

text \<open>
  The reference store with upload URLs that are stale by the time they are used: signing
  answers a URL and grants nothing, so the store answers the \<^verbatim>\<open>PUT\<close> with 403.
\<close>

definition stale_platform :: "(s3, s3_error) platform" where
  "stale_platform =
     platform0\<lparr>presignedPutObject :=
       (\<lambda>b k expiry s. (Inr (signed_url ''https://s3.test:9000'' PUT b k), s))\<rparr>"

text \<open>A store holding one object whose recorded content type is the empty string.\<close>

definition blank_world :: "(s3, s3_error) world" where
  "blank_world =
     \<lparr>store = \<lparr>objects = [((''docs'', ''k''), \<lparr>body = [7], meta = [(''content-type'', [])]\<rparr>)],
               grants = [], chunk_size = 2\<rparr>,
      draws = 0, trace = [], console = []\<rparr>"

lemmas prog_defs =
  resolve_def throw_def await_def try_catch_def console_error_def external_def uuid_v4_def
  collect_def response_arrayBuffer_def

lemmas s3_defs =
  s3_platform_def s3_store_def s3_putObject_def s3_getObject_def s3_statObject_def
  s3_removeObject_def s3_presigned_def s3_fetch_def

section \<open>What each gateway function returns\<close>

text \<open>
  The result of every function, by the outcome of each call it makes, in the order the
  source makes them. An error bound by a \<open>case\<close> and not used on its right is an error
  the function drops.
\<close>

lemma createDocument_outcome:
  "fst (createDocument P E f x w) =
     (case presignedPutObject P (MINIO_BUCKET E) (v4 P (draws w)) (expiry_or_default x) (store w) of
        (Inl e, s1) \<Rightarrow> Inl (Error ''Failed to create document'')
      | (Inr u, s1) \<Rightarrow>
          (case fst (fetch P (put_request u f) s1) of
             Inl e \<Rightarrow> Inl (Error ''Failed to create document'')
           | Inr r \<Rightarrow>
               Inr \<lparr>docId = v4 P (draws w),
                    url = MINIO_URL E @ ''/'' @ MINIO_BUCKET E @ ''/'' @ v4 P (draws w)\<rparr>))"
  by (simp add: createDocument_def prog_defs split: prod.splits sum.splits)

lemma createDocument_trace:
  "trace (snd (createDocument P E f x w)) =
     trace w @
     PresignedPutObject (MINIO_BUCKET E) (v4 P (draws w)) (expiry_or_default x) #
     (case fst (presignedPutObject P (MINIO_BUCKET E) (v4 P (draws w)) (expiry_or_default x) (store w)) of
        Inl e \<Rightarrow> []
      | Inr u \<Rightarrow> [Fetch (put_request u f)])"
  by (simp add: createDocument_def prog_defs split: prod.splits sum.splits)


lemma createDocument_console:
  "console (snd (createDocument P E f x w)) =
     console w @
     (case presignedPutObject P (MINIO_BUCKET E) (v4 P (draws w)) (expiry_or_default x) (store w) of
        (Inl e, s1) \<Rightarrow> [(''Error creating document:'', External e)]
      | (Inr u, s1) \<Rightarrow>
          (case fst (fetch P (put_request u f) s1) of
             Inl e \<Rightarrow> [(''Error creating document:'', External e)]
           | Inr r \<Rightarrow> []))"
  by (simp add: createDocument_def prog_defs split: prod.splits sum.splits)

lemma getDocumentUrl_outcome:
  "fst (getDocumentUrl P E k x w) =
     (case fst (presignedGetObject P (MINIO_BUCKET E) k (expiry_or_default x) (store w)) of
        Inl e \<Rightarrow> Inl (Error ''Failed to get document URL'')
      | Inr u \<Rightarrow> Inr u)"
  by (simp add: getDocumentUrl_def prog_defs split: prod.splits sum.splits)

lemma getDocumentUrl_trace:
  "trace (snd (getDocumentUrl P E k x w)) =
     trace w @ [PresignedGetObject (MINIO_BUCKET E) k (expiry_or_default x)]"
  by (simp add: getDocumentUrl_def prog_defs split: prod.splits sum.splits)

lemma readDocument_outcome:
  "fst (readDocument P E k w) =
     (case statObject P (MINIO_BUCKET E) k (store w) of
        (Inl e, s1) \<Rightarrow> Inl (Error ''Failed to read document'')
      | (Inr st, s1) \<Rightarrow>
          (case presignedGetObject P (MINIO_BUCKET E) k 60 s1 of
             (Inl e, s2) \<Rightarrow> Inl (Error ''Failed to read document'')
           | (Inr u, s2) \<Rightarrow>
               (case fst (fetch P (get_request u) s2) of
                  Inl e \<Rightarrow> Inl (Error ''Failed to read document'')
                | Inr r \<Rightarrow>
                    (case arrayBuffer r of
                       Inl e \<Rightarrow> Inl (Error ''Failed to read document'')
                     | Inr d \<Rightarrow>
                         Inr \<lparr>data = d,
                              doc_contentType =
                                js_or (map_of (metaData st) ''content-type'') ''application/octet-stream''\<rparr>))))"
  by (simp add: readDocument_def prog_defs split: prod.splits sum.splits)

lemma deleteDocument_outcome:
  "fst (deleteDocument P E k w) =
     (case fst (removeObject P (MINIO_BUCKET E) k (store w)) of
        Inl e \<Rightarrow> Inl (Error ''Failed to delete document'')
      | Inr _ \<Rightarrow> Inr ())"
  by (simp add: deleteDocument_def prog_defs split: prod.splits sum.splits)

lemma getDocumentMetadata_outcome:
  "fst (getDocumentMetadata P E k w) =
     (case fst (statObject P (MINIO_BUCKET E) k (store w)) of
        Inl e \<Rightarrow> Inl (Error ''Failed to get document metadata'')
      | Inr st \<Rightarrow>
          Inr \<lparr>contentType = js_or (map_of (metaData st) ''content-type'') ''application/octet-stream'',
               md_size = stat_size st\<rparr>)"
  by (simp add: getDocumentMetadata_def prog_defs split: prod.splits sum.splits)

lemma documentExists_outcome:
  "fst (documentExists P E k w) =
     (case fst (statObject P (MINIO_BUCKET E) k (store w)) of
        Inl e \<Rightarrow> Inr False
      | Inr st \<Rightarrow> Inr True)"
  by (simp add: documentExists_def prog_defs split: prod.splits sum.splits)

lemma direct_createDocument_outcome:
  "fst (direct_createDocument P E f w) =
     (case fst (putObject P (MINIO_BUCKET E) (v4 P (draws w)) (content f) (length (content f))
                  [(''Content-Type'', file_type f)] (store w)) of
        Inl e \<Rightarrow> Inl (External e)
      | Inr _ \<Rightarrow> Inr (v4 P (draws w)))"
  by (simp add: direct_createDocument_def prog_defs split: prod.splits sum.splits)


lemma direct_readDocument_outcome:
  "fst (direct_readDocument P E k w) =
     (case getObject P (MINIO_BUCKET E) k (store w) of
        (Inl e, s1) \<Rightarrow> Inl (External e)
      | (Inr str, s1) \<Rightarrow>
          (case stream_error str of
             Some err \<Rightarrow> Inl (External err)
           | None \<Rightarrow>
               (case fst (statObject P (MINIO_BUCKET E) k s1) of
                  Inl e \<Rightarrow> Inl (External e)
                | Inr st \<Rightarrow>
                    Inr \<lparr>data = concat (chunks str),
                         doc_contentType =
                           js_or (map_of (metaData st) ''content-type'') ''application/octet-stream''\<rparr>)))"
  by (auto simp: direct_readDocument_def prog_defs split: prod.splits sum.splits option.splits)

lemma direct_deleteDocument_outcome:
  "fst (direct_deleteDocument P E k w) =
     (case fst (removeObject P (MINIO_BUCKET E) k (store w)) of
        Inl e \<Rightarrow> Inl (External e)
      | Inr _ \<Rightarrow> Inr ())"
  by (simp add: direct_deleteDocument_def prog_defs split: prod.splits sum.splits)

lemma direct_getDocumentUrl_run:
  "direct_getDocumentUrl E k w = (Inr (MINIO_URL E @ ''/'' @ MINIO_BUCKET E @ ''/'' @ k), w)"
  by (simp add: direct_getDocumentUrl_def resolve_def)

lemma documentExists_trace:
  "trace (snd (documentExists P E k w)) = trace w @ [StatObject (MINIO_BUCKET E) k]"
  by (simp add: documentExists_def prog_defs split: prod.splits sum.splits)

section \<open>The gateway over the reference store\<close>

lemma concat_chunked: "concat (chunked n xs) = xs"
proof (induction n xs rule: chunked.induct)
  case (1 n xs)
  show ?case
  proof (cases "xs = [] \<or> n = 0 \<or> length xs \<le> n")
    case True
    then show ?thesis by (auto simp: chunked.simps [of n xs])
  next
    case False
    with "1" have "concat (chunked n (drop n xs)) = drop n xs" by simp
    with False show ?thesis by (simp add: chunked.simps [of n xs])
  qed
qed

lemma s3_store_lookup:
  "map_of (objects (s3_store b k bs [(''Content-Type'', t)] s)) (b, k) =
     Some \<lparr>body = bs, meta = [(''content-type'', t)]\<rparr>"
  by (simp add: s3_store_def)

lemma s3_direct_createDocument:
  "direct_createDocument (s3_platform ep gen) E f w =
     (Inr (gen (draws w)),
      w\<lparr>store := s3_store (MINIO_BUCKET E) (gen (draws w)) (content f)
                   [(''Content-Type'', file_type f)] (store w),
        draws := Suc (draws w),
        trace := trace w @
          [PutObject (MINIO_BUCKET E) (gen (draws w)) (content f) (length (content f))
             [(''Content-Type'', file_type f)]]\<rparr>)"
  by (simp add: direct_createDocument_def prog_defs s3_platform_def s3_putObject_def)

lemma s3_createDocument:
  "createDocument (s3_platform ep gen) E f x w =
     (Inr \<lparr>docId = gen (draws w),
           url = MINIO_URL E @ ''/'' @ MINIO_BUCKET E @ ''/'' @ gen (draws w)\<rparr>,
      w\<lparr>store := s3_store (MINIO_BUCKET E) (gen (draws w)) (content f)
                   [(''Content-Type'', file_type f)]
                   ((store w)\<lparr>grants :=
                      (signed_url ep PUT (MINIO_BUCKET E) (gen (draws w)), PUT, MINIO_BUCKET E,
                       gen (draws w), expiry_or_default x) # grants (store w)\<rparr>),
        draws := Suc (draws w),
        trace := trace w @
          [PresignedPutObject (MINIO_BUCKET E) (gen (draws w)) (expiry_or_default x),
           Fetch (put_request (signed_url ep PUT (MINIO_BUCKET E) (gen (draws w))) f)]\<rparr>)"
  by (simp add: createDocument_def prog_defs s3_platform_def s3_presigned_def s3_fetch_def)

lemma s3_readDocument:
  assumes "map_of (objects (store w)) (MINIO_BUCKET E, k) = Some ob"
  shows "fst (readDocument (s3_platform ep gen) E k w) =
     Inr \<lparr>data = body ob,
          doc_contentType = js_or (map_of (meta ob) ''content-type'') ''application/octet-stream''\<rparr>"
  using assms
  by (simp add: readDocument_outcome s3_platform_def s3_statObject_def s3_presigned_def s3_fetch_def)

lemma s3_direct_readDocument:
  assumes "map_of (objects (store w)) (MINIO_BUCKET E, k) = Some ob"
  shows "fst (direct_readDocument (s3_platform ep gen) E k w) =
     Inr \<lparr>data = body ob,
          doc_contentType = js_or (map_of (meta ob) ''content-type'') ''application/octet-stream''\<rparr>"
  using assms
  by (simp add: direct_readDocument_outcome s3_platform_def s3_statObject_def s3_getObject_def
      concat_chunked)

lemma s3_getDocumentMetadata:
  assumes "map_of (objects (store w)) (MINIO_BUCKET E, k) = Some ob"
  shows "fst (getDocumentMetadata (s3_platform ep gen) E k w) =
     Inr \<lparr>contentType = js_or (map_of (meta ob) ''content-type'') ''application/octet-stream'',
          md_size = length (body ob)\<rparr>"
  using assms
  by (simp add: getDocumentMetadata_outcome s3_platform_def s3_statObject_def)

lemma s3_missing:
  assumes "map_of (objects (store w)) (MINIO_BUCKET E, k) = None"
  shows "fst (readDocument (s3_platform ep gen) E k w) = Inl (Error ''Failed to read document'')"
    and "fst (direct_readDocument (s3_platform ep gen) E k w) = Inl (External NoSuchKey)"
    and "fst (deleteDocument (s3_platform ep gen) E k w) = Inr ()"
    and "fst (direct_deleteDocument (s3_platform ep gen) E k w) = Inr ()"
  using assms
  by (simp_all add: readDocument_outcome direct_readDocument_outcome deleteDocument_outcome
      direct_deleteDocument_outcome s3_platform_def s3_statObject_def s3_getObject_def
      s3_removeObject_def)

lemma js_or_present: "t \<noteq> [] \<Longrightarrow> js_or (Some t) d = t"
  by (simp add: js_or_def)


lemmas example_defs =
  platform0_def stale_platform_def env0_def file0_def world0_def gen0_def blank_world_def
  signed_url_def method_name_def

section \<open>The claims\<close>

subsection \<open>C1: which errors leave the gateway\<close>

text \<open>
  C1, as the spec states it, fails twice on the reference store with an identifier that
  was never created. In the direct module readDocument has no \<^verbatim>\<open>try\<close>: the error of
  the client, \<open>NoSuchKey\<close>, leaves the function as it is, and no generic error is made.
  And deleteDocument of the presigned module does not fail: the store removes a missing
  key without complaint.
\<close>

theorem direct_readDocument_propagates_client_error:
  "fst (direct_readDocument platform0 env0 ''missing'' world0) = Inl (External NoSuchKey)
   \<and> fst (deleteDocument platform0 env0 ''missing'' world0) = Inr ()"
  by (simp add: direct_readDocument_outcome deleteDocument_outcome s3_defs example_defs)

text \<open>
  C1, amended. In the presigned module every function is one \<^verbatim>\<open>try\<close> block: whichever
  call throws (the store client, \<^verbatim>\<open>fetch\<close>, or \<^verbatim>\<open>arrayBuffer\<close>), the function fails
  with its own fixed error, \<open>Error ''Failed to ...''\<close>, in which the thrown value does not
  occur. In the direct module nothing is caught: createDocument, readDocument and
  deleteDocument fail with the very value the client (or the stream) threw. For an
  identifier the reference store does not hold, readDocument fails (generically in the
  presigned module, with \<open>NoSuchKey\<close> in the direct one), and deleteDocument succeeds in
  both: it fails only if \<^verbatim>\<open>removeObject\<close> throws.
\<close>

theorem gateway_error_policy:
  "fst (createDocument P E f x w) =
     (case presignedPutObject P (MINIO_BUCKET E) (v4 P (draws w)) (expiry_or_default x) (store w) of
        (Inl e, s1) \<Rightarrow> Inl (Error ''Failed to create document'')
      | (Inr u, s1) \<Rightarrow>
          (case fst (fetch P (put_request u f) s1) of
             Inl e \<Rightarrow> Inl (Error ''Failed to create document'')
           | Inr r \<Rightarrow>
               Inr \<lparr>docId = v4 P (draws w),
                    url = MINIO_URL E @ ''/'' @ MINIO_BUCKET E @ ''/'' @ v4 P (draws w)\<rparr>))
   \<and> fst (getDocumentUrl P E k x w) =
     (case fst (presignedGetObject P (MINIO_BUCKET E) k (expiry_or_default x) (store w)) of
        Inl e \<Rightarrow> Inl (Error ''Failed to get document URL'')
      | Inr u \<Rightarrow> Inr u)
   \<and> fst (readDocument P E k w) =
     (case statObject P (MINIO_BUCKET E) k (store w) of
        (Inl e, s1) \<Rightarrow> Inl (Error ''Failed to read document'')
      | (Inr st, s1) \<Rightarrow>
          (case presignedGetObject P (MINIO_BUCKET E) k 60 s1 of
             (Inl e, s2) \<Rightarrow> Inl (Error ''Failed to read document'')
           | (Inr u, s2) \<Rightarrow>
               (case fst (fetch P (get_request u) s2) of
                  Inl e \<Rightarrow> Inl (Error ''Failed to read document'')
                | Inr r \<Rightarrow>
                    (case arrayBuffer r of
                       Inl e \<Rightarrow> Inl (Error ''Failed to read document'')
                     | Inr d \<Rightarrow>
                         Inr \<lparr>data = d,
                              doc_contentType =
                                js_or (map_of (metaData st) ''content-type'') ''application/octet-stream''\<rparr>))))
   \<and> fst (deleteDocument P E k w) =
     (case fst (removeObject P (MINIO_BUCKET E) k (store w)) of
        Inl e \<Rightarrow> Inl (Error ''Failed to delete document'')
      | Inr _ \<Rightarrow> Inr ())
   \<and> fst (getDocumentMetadata P E k w) =
     (case fst (statObject P (MINIO_BUCKET E) k (store w)) of
        Inl e \<Rightarrow> Inl (Error ''Failed to get document metadata'')
      | Inr st \<Rightarrow>
          Inr \<lparr>contentType = js_or (map_of (metaData st) ''content-type'') ''application/octet-stream'',
               md_size = stat_size st\<rparr>)
   \<and> fst (direct_createDocument P E f w) =
     (case fst (putObject P (MINIO_BUCKET E) (v4 P (draws w)) (content f) (length (content f))
                  [(''Content-Type'', file_type f)] (store w)) of
        Inl e \<Rightarrow> Inl (External e)
      | Inr _ \<Rightarrow> Inr (v4 P (draws w)))
   \<and> fst (direct_readDocument P E k w) =
     (case getObject P (MINIO_BUCKET E) k (store w) of
        (Inl e, s1) \<Rightarrow> Inl (External e)
      | (Inr str, s1) \<Rightarrow>
          (case stream_error str of
             Some err \<Rightarrow> Inl (External err)
           | None \<Rightarrow>
               (case fst (statObject P (MINIO_BUCKET E) k s1) of
                  Inl e \<Rightarrow> Inl (External e)
                | Inr st \<Rightarrow>
                    Inr \<lparr>data = concat (chunks str),
                         doc_contentType =
                           js_or (map_of (metaData st) ''content-type'') ''application/octet-stream''\<rparr>)))
   \<and> fst (direct_deleteDocument P E k w) =
     (case fst (removeObject P (MINIO_BUCKET E) k (store w)) of
        Inl e \<Rightarrow> Inl (External e)
      | Inr _ \<Rightarrow> Inr ())
   \<and> (map_of (objects (store v)) (MINIO_BUCKET E, k) = None \<longrightarrow>
        fst (readDocument (s3_platform ep gen) E k v) = Inl (Error ''Failed to read document'')
        \<and> fst (direct_readDocument (s3_platform ep gen) E k v) = Inl (External NoSuchKey)
        \<and> fst (deleteDocument (s3_platform ep gen) E k v) = Inr ()
        \<and> fst (direct_deleteDocument (s3_platform ep gen) E k v) = Inr ())"
proof -
  have missing: "map_of (objects (store v)) (MINIO_BUCKET E, k) = None \<longrightarrow>
        fst (readDocument (s3_platform ep gen) E k v) = Inl (Error ''Failed to read document'')
        \<and> fst (direct_readDocument (s3_platform ep gen) E k v) = Inl (External NoSuchKey)
        \<and> fst (deleteDocument (s3_platform ep gen) E k v) = Inr ()
        \<and> fst (direct_deleteDocument (s3_platform ep gen) E k v) = Inr ()"
    using s3_missing [of v E k ep gen] by blast
  show ?thesis
    by (intro conjI createDocument_outcome getDocumentUrl_outcome readDocument_outcome
        deleteDocument_outcome getDocumentMetadata_outcome direct_createDocument_outcome
        direct_readDocument_outcome direct_deleteDocument_outcome missing)
qed

text \<open>C1, amended, at the identifier \<open>''missing''\<close> in the empty reference store.\<close>

theorem gateway_error_policy_witness:
  "map_of (objects (store world0)) (MINIO_BUCKET env0, ''missing'') = None
   \<and> fst (readDocument platform0 env0 ''missing'' world0) = Inl (Error ''Failed to read document'')
   \<and> fst (direct_readDocument platform0 env0 ''missing'' world0) = Inl (External NoSuchKey)
   \<and> fst (deleteDocument platform0 env0 ''missing'' world0) = Inr ()
   \<and> fst (direct_deleteDocument platform0 env0 ''missing'' world0) = Inr ()
   \<and> fst (getDocumentMetadata platform0 env0 ''missing'' world0) =
       Inl (Error ''Failed to get document metadata'')"
proof -
  have none: "map_of (objects (store world0)) (MINIO_BUCKET env0, ''missing'') = None"
    by (simp add: world0_def)
  have st: "fst (statObject platform0 (MINIO_BUCKET env0) ''missing'' (store world0)) = Inl NoSuchKey"
    by (simp add: s3_defs example_defs)
  note T = gateway_error_policy
    [of platform0 env0 file0 None world0 "''missing''" world0 "''https://s3.test:9000''" gen0]
  from T none have
    "fst (readDocument (s3_platform ''https://s3.test:9000'' gen0) env0 ''missing'' world0) =
       Inl (Error ''Failed to read document'')
     \<and> fst (direct_readDocument (s3_platform ''https://s3.test:9000'' gen0) env0 ''missing'' world0) =
       Inl (External NoSuchKey)
     \<and> fst (deleteDocument (s3_platform ''https://s3.test:9000'' gen0) env0 ''missing'' world0) = Inr ()
     \<and> fst (direct_deleteDocument (s3_platform ''https://s3.test:9000'' gen0) env0 ''missing'' world0) = Inr ()"
    by blast
  moreover from T have "fst (getDocumentMetadata platform0 env0 ''missing'' world0) =
     (case fst (statObject platform0 (MINIO_BUCKET env0) ''missing'' (store world0)) of
        Inl e \<Rightarrow> Inl (Error ''Failed to get document metadata'')
      | Inr st \<Rightarrow>
          Inr \<lparr>contentType = js_or (map_of (metaData st) ''content-type'') ''application/octet-stream'',
               md_size = stat_size st\<rparr>)"
    by blast
  ultimately show ?thesis using none st by (simp add: platform0_def)
qed

subsection \<open>C2: what was created is what is read\<close>

text \<open>
  C2: over the reference store, for a file whose content type is present (not the empty
  string), createDocument succeeds and stores the file, and a readDocument of the
  returned identifier right after it returns the file's bytes and the file's declared
  type. This holds for each module and across them (created by one, read by the other).
\<close>

theorem create_then_read_roundtrip:
  assumes "valid_file f"
  shows
    "fst (createDocument (s3_platform ep gen) E f x w) =
       Inr \<lparr>docId = gen (draws w), url = MINIO_URL E @ ''/'' @ MINIO_BUCKET E @ ''/'' @ gen (draws w)\<rparr>
     \<and> fst (readDocument (s3_platform ep gen) E (gen (draws w))
          (snd (createDocument (s3_platform ep gen) E f x w))) =
       Inr \<lparr>data = content f, doc_contentType = file_type f\<rparr>
     \<and> fst (direct_readDocument (s3_platform ep gen) E (gen (draws w))
          (snd (createDocument (s3_platform ep gen) E f x w))) =
       Inr \<lparr>data = content f, doc_contentType = file_type f\<rparr>
     \<and> fst (direct_createDocument (s3_platform ep gen) E f w) = Inr (gen (draws w))
     \<and> fst (direct_readDocument (s3_platform ep gen) E (gen (draws w))
          (snd (direct_createDocument (s3_platform ep gen) E f w))) =
       Inr \<lparr>data = content f, doc_contentType = file_type f\<rparr>
     \<and> fst (readDocument (s3_platform ep gen) E (gen (draws w))
          (snd (direct_createDocument (s3_platform ep gen) E f w))) =
       Inr \<lparr>data = content f, doc_contentType = file_type f\<rparr>"
proof -
  let ?ob = "\<lparr>body = content f, meta = [(''content-type'', file_type f)]\<rparr>"
  have t: "js_or (map_of (meta ?ob) ''content-type'') ''application/octet-stream'' = file_type f"
    using assms by (simp add: valid_file_def js_or_present)
  have a: "map_of (objects (store (snd (createDocument (s3_platform ep gen) E f x w))))
             (MINIO_BUCKET E, gen (draws w)) = Some ?ob"
    by (simp add: s3_createDocument s3_store_lookup)
  have b: "map_of (objects (store (snd (direct_createDocument (s3_platform ep gen) E f w))))
             (MINIO_BUCKET E, gen (draws w)) = Some ?ob"
    by (simp add: s3_direct_createDocument s3_store_lookup)
  show ?thesis
    using s3_readDocument [OF a, of ep gen] s3_direct_readDocument [OF a, of ep gen]
      s3_readDocument [OF b, of ep gen] s3_direct_readDocument [OF b, of ep gen] t
    by (simp add: s3_createDocument s3_direct_createDocument)
qed

text \<open>C2 at the upload of \<open>file0\<close> to the empty reference store.\<close>

theorem create_then_read_roundtrip_witness:
  "valid_file file0
   \<and> fst (createDocument platform0 env0 file0 None world0) =
       Inr \<lparr>docId = ''doc-'', url = ''https://s3.test:9000/docs/doc-''\<rparr>
   \<and> fst (readDocument platform0 env0 ''doc-'' (snd (createDocument platform0 env0 file0 None world0))) =
       Inr \<lparr>data = [1, 2, 3], doc_contentType = ''text/plain''\<rparr>
   \<and> fst (direct_createDocument platform0 env0 file0 world0) = Inr ''doc-''
   \<and> fst (direct_readDocument platform0 env0 ''doc-''
        (snd (direct_createDocument platform0 env0 file0 world0))) =
       Inr \<lparr>data = [1, 2, 3], doc_contentType = ''text/plain''\<rparr>"
proof -
  have v: "valid_file file0"
    by (simp add: valid_file_def file0_def)
  have ids: "gen0 (draws world0) = ''doc-''" "content file0 = [1, 2, 3]" "file_type file0 = ''text/plain''"
    "MINIO_URL env0 = ''https://s3.test:9000''" "MINIO_BUCKET env0 = ''docs''"
    by (simp_all add: example_defs)
  show ?thesis
    using create_then_read_roundtrip [OF v, of "''https://s3.test:9000''" gen0 env0 None world0] v
    by (simp add: platform0_def ids)
qed

subsection \<open>C3: what createDocument of the presigned module returns\<close>

text \<open>
  C3, as the spec states it, fails: the \<open>url\<close> of the returned descriptor is not the
  URL the bytes were sent to. On the reference store, the upload of \<open>file0\<close> goes to the
  signed URL (the \<open>Fetch\<close> in the trace), and the descriptor carries the address built
  from \<^verbatim>\<open>MINIO_URL\<close>, the bucket and the identifier.
\<close>

theorem createDocument_url_is_not_upload_url:
  "fst (createDocument platform0 env0 file0 None world0) =
     Inr \<lparr>docId = ''doc-'', url = ''https://s3.test:9000/docs/doc-''\<rparr>
   \<and> trace (snd (createDocument platform0 env0 file0 None world0)) =
     [PresignedPutObject ''docs'' ''doc-'' 3600,
      Fetch \<lparr>req_url = ''https://s3.test:9000/docs/doc-?X-Amz-Signature=PUT'', req_method = PUT,
             req_body = Some [1, 2, 3], req_headers = [(''Content-Type'', ''text/plain'')]\<rparr>]
   \<and> ''https://s3.test:9000/docs/doc-'' \<noteq> ''https://s3.test:9000/docs/doc-?X-Amz-Signature=PUT''"
  by (simp add: createDocument_def prog_defs s3_defs example_defs expiry_or_default_def)

text \<open>
  C3, amended: createDocument draws a fresh identifier, asks the client for a signed
  upload URL for it (expiry \<open>expirySeconds\<close>, 3600 when omitted), sends the file's bytes
  with a \<^verbatim>\<open>PUT\<close> to that signed URL under the file's declared type, and, when signing
  succeeds and the transfer resolves, returns the identifier together with the URL
  \<^verbatim>\<open>MINIO_URL/bucket/docId\<close>, which is not the signed URL.
\<close>

theorem createDocument_returns_constructed_url:
  assumes "presignedPutObject P (MINIO_BUCKET E) (v4 P (draws w))
             (case x of None \<Rightarrow> 3600 | Some n \<Rightarrow> n) (store w) = (Inr u, s1)"
    and "fetch P (put_request u f) s1 = (Inr r, s2)"
  shows "createDocument P E f x w =
     (Inr \<lparr>docId = v4 P (draws w),
           url = MINIO_URL E @ ''/'' @ MINIO_BUCKET E @ ''/'' @ v4 P (draws w)\<rparr>,
      w\<lparr>store := s2, draws := Suc (draws w),
        trace := trace w @
          [PresignedPutObject (MINIO_BUCKET E) (v4 P (draws w)) (case x of None \<Rightarrow> 3600 | Some n \<Rightarrow> n),
           Fetch (put_request u f)]\<rparr>)"
  using assms by (simp add: createDocument_def prog_defs expiry_or_default_def)

text \<open>C3, amended, at the upload of \<open>file0\<close> to the empty reference store.\<close>

theorem createDocument_returns_constructed_url_witness:
  "presignedPutObject platform0 ''docs'' ''doc-'' 3600 (store world0) =
     (Inr ''https://s3.test:9000/docs/doc-?X-Amz-Signature=PUT'',
      \<lparr>objects = [],
       grants = [(''https://s3.test:9000/docs/doc-?X-Amz-Signature=PUT'', PUT, ''docs'', ''doc-'', 3600)],
       chunk_size = 2\<rparr>)
   \<and> fetch platform0 (put_request ''https://s3.test:9000/docs/doc-?X-Amz-Signature=PUT'' file0)
        \<lparr>objects = [],
         grants = [(''https://s3.test:9000/docs/doc-?X-Amz-Signature=PUT'', PUT, ''docs'', ''doc-'', 3600)],
       chunk_size = 2\<rparr> =
     (Inr \<lparr>status = 200, arrayBuffer = Inr []\<rparr>,
      \<lparr>objects = [((''docs'', ''doc-''), \<lparr>body = [1, 2, 3], meta = [(''content-type'', ''text/plain'')]\<rparr>)],
       grants = [(''https://s3.test:9000/docs/doc-?X-Amz-Signature=PUT'', PUT, ''docs'', ''doc-'', 3600)],
       chunk_size = 2\<rparr>)
   \<and> createDocument platform0 env0 file0 None world0 =
     (Inr \<lparr>docId = ''doc-'', url = ''https://s3.test:9000/docs/doc-''\<rparr>,
      \<lparr>store =
         \<lparr>objects = [((''docs'', ''doc-''), \<lparr>body = [1, 2, 3], meta = [(''content-type'', ''text/plain'')]\<rparr>)],
          grants = [(''https://s3.test:9000/docs/doc-?X-Amz-Signature=PUT'', PUT, ''docs'', ''doc-'', 3600)],
       chunk_size = 2\<rparr>,
       draws = 1,
       trace =
         [PresignedPutObject ''docs'' ''doc-'' 3600,
          Fetch (put_request ''https://s3.test:9000/docs/doc-?X-Amz-Signature=PUT'' file0)],
       console = []\<rparr>)"
proof -
  let ?u = "''https://s3.test:9000/docs/doc-?X-Amz-Signature=PUT''"
  let ?s1 = "\<lparr>objects = [], grants = [(?u, PUT, ''docs'', ''doc-'', 3600)],
       chunk_size = 2\<rparr>"
  let ?s2 = "\<lparr>objects = [((''docs'', ''doc-''), \<lparr>body = [1, 2, 3], meta = [(''content-type'', ''text/plain'')]\<rparr>)],
             grants = [(?u, PUT, ''docs'', ''doc-'', 3600)],
       chunk_size = 2\<rparr>"
  have ids: "MINIO_BUCKET env0 = ''docs''" "v4 platform0 (draws world0) = ''doc-''"
    "MINIO_URL env0 = ''https://s3.test:9000''"
    by (simp_all add: s3_defs example_defs)
  have sign: "presignedPutObject platform0 ''docs'' ''doc-'' 3600 (store world0) = (Inr ?u, ?s1)"
    by (simp add: s3_defs example_defs)
  have put: "fetch platform0 (put_request ?u file0) ?s1 = (Inr \<lparr>status = 200, arrayBuffer = Inr []\<rparr>, ?s2)"
    by (simp add: s3_defs example_defs)
  have "createDocument platform0 env0 file0 None world0 =
      (Inr \<lparr>docId = ''doc-'', url = ''https://s3.test:9000/docs/doc-''\<rparr>,
       world0\<lparr>store := ?s2, draws := Suc (draws world0),
         trace := trace world0 @ [PresignedPutObject ''docs'' ''doc-'' 3600, Fetch (put_request ?u file0)]\<rparr>)"
    using createDocument_returns_constructed_url
      [of platform0 env0 world0 None ?u ?s1 file0 "\<lparr>status = 200, arrayBuffer = Inr []\<rparr>" ?s2]
      sign put
    by (simp add: ids)
  then have "createDocument platform0 env0 file0 None world0 =
      (Inr \<lparr>docId = ''doc-'', url = ''https://s3.test:9000/docs/doc-''\<rparr>,
       \<lparr>store = ?s2, draws = 1,
        trace = [PresignedPutObject ''docs'' ''doc-'' 3600, Fetch (put_request ?u file0)],
        console = []\<rparr>)"
    by (simp add: world0_def)
  with sign put show ?thesis by simp
qed

subsection \<open>C4: documentExists\<close>

text \<open>
  C4: documentExists makes one call, \<^verbatim>\<open>statObject\<close> on the identifier, and returns
  \<open>True\<close> exactly when that call succeeds; when it throws, whatever it throws,
  documentExists returns \<open>False\<close> and throws nothing.
\<close>

theorem documentExists_never_throws:
  "fst (documentExists P E k w) =
     Inr (case fst (statObject P (MINIO_BUCKET E) k (store w)) of Inl e \<Rightarrow> False | Inr st \<Rightarrow> True)
   \<and> trace (snd (documentExists P E k w)) = trace w @ [StatObject (MINIO_BUCKET E) k]"
  by (simp add: documentExists_outcome documentExists_trace split: sum.splits)

subsection \<open>C5: identifiers are fresh\<close>



subsection \<open>C6: getDocumentUrl of the presigned module\<close>

text \<open>
  C6: getDocumentUrl makes one call, \<^verbatim>\<open>presignedGetObject\<close>, whose expiry is the
  \<open>expirySeconds\<close> it was given, or 3600 when the argument is omitted, and returns the
  URL that call answers.
\<close>

theorem getDocumentUrl_expiry_passthrough:
  "trace (snd (getDocumentUrl P E k x w)) =
     trace w @ [PresignedGetObject (MINIO_BUCKET E) k (case x of None \<Rightarrow> 3600 | Some n \<Rightarrow> n)]
   \<and> fst (getDocumentUrl P E k x w) =
     (case fst (presignedGetObject P (MINIO_BUCKET E) k (case x of None \<Rightarrow> 3600 | Some n \<Rightarrow> n) (store w)) of
        Inl e \<Rightarrow> Inl (Error ''Failed to get document URL'')
      | Inr u \<Rightarrow> Inr u)"
  using getDocumentUrl_outcome [of P E k x w] getDocumentUrl_trace [of P E k x w]
  by (simp add: expiry_or_default_def)

subsection \<open>C7: getDocumentUrl of the direct module, and no existence check\<close>

text \<open>
  C7: in the direct module getDocumentUrl returns \<^verbatim>\<open>MINIO_URL/bucket/docId\<close> for every
  identifier, never fails and leaves the world as it was (no call is made). In the
  presigned module the only call is the signing call: neither module looks the
  identifier up before it answers.
\<close>

theorem getDocumentUrl_no_existence_check:
  "direct_getDocumentUrl E k w = (Inr (MINIO_URL E @ ''/'' @ MINIO_BUCKET E @ ''/'' @ k), w)
   \<and> trace (snd (getDocumentUrl P E k x w)) =
       trace w @ [PresignedGetObject (MINIO_BUCKET E) k (case x of None \<Rightarrow> 3600 | Some n \<Rightarrow> n)]"
  using direct_getDocumentUrl_run [of E k w] getDocumentUrl_trace [of P E k x w]
  by (simp add: expiry_or_default_def)

subsection \<open>C8: the content type readDocument returns\<close>

text \<open>
  C8, as the spec states it, fails when the content type the store has recorded is the
  empty string: \<^verbatim>\<open>||\<close> takes it for missing, and readDocument of either module answers
  \<^verbatim>\<open>application/octet-stream\<close>, not the recorded value.
\<close>

theorem readDocument_blank_contentType:
  "fst (statObject platform0 ''docs'' ''k'' (store blank_world)) =
     Inr \<lparr>stat_size = 1, metaData = [(''content-type'', '''')]\<rparr>
   \<and> fst (readDocument platform0 env0 ''k'' blank_world) =
     Inr \<lparr>data = [7], doc_contentType = ''application/octet-stream''\<rparr>
   \<and> fst (direct_readDocument platform0 env0 ''k'' blank_world) =
     Inr \<lparr>data = [7], doc_contentType = ''application/octet-stream''\<rparr>"
  by (simp add: readDocument_outcome direct_readDocument_outcome s3_defs example_defs js_or_def
      concat_chunked)

text \<open>
  C8, amended: in both modules the content type readDocument returns is the one in the
  metadata that \<^verbatim>\<open>statObject\<close> answered when that is a non-empty string, and
  \<^verbatim>\<open>application/octet-stream\<close> when the metadata has none or has the empty string.
\<close>

theorem readDocument_contentType:
  "(fst (statObject P (MINIO_BUCKET E) k (store w)) = Inr st \<and> fst (readDocument P E k w) = Inr d
      \<longrightarrow> doc_contentType d =
            (case map_of (metaData st) ''content-type'' of
               None \<Rightarrow> ''application/octet-stream''
             | Some t \<Rightarrow> if t = '''' then ''application/octet-stream'' else t))
   \<and> (getObject P (MINIO_BUCKET E) k (store w) = (Inr str, s1)
        \<and> fst (statObject P (MINIO_BUCKET E) k s1) = Inr st'
        \<and> fst (direct_readDocument P E k w) = Inr d'
      \<longrightarrow> doc_contentType d' =
            (case map_of (metaData st') ''content-type'' of
               None \<Rightarrow> ''application/octet-stream''
             | Some t \<Rightarrow> if t = '''' then ''application/octet-stream'' else t))"
proof -
  have a: "doc_contentType d =
      (case map_of (metaData st) ''content-type'' of
         None \<Rightarrow> ''application/octet-stream''
       | Some t \<Rightarrow> if t = '''' then ''application/octet-stream'' else t)"
    if "fst (statObject P (MINIO_BUCKET E) k (store w)) = Inr st" "fst (readDocument P E k w) = Inr d"
    using that
    by (auto simp: readDocument_outcome js_or_def split: prod.splits sum.splits option.splits)
  have b: "doc_contentType d' =
      (case map_of (metaData st') ''content-type'' of
         None \<Rightarrow> ''application/octet-stream''
       | Some t \<Rightarrow> if t = '''' then ''application/octet-stream'' else t)"
    if "getObject P (MINIO_BUCKET E) k (store w) = (Inr str, s1)"
      "fst (statObject P (MINIO_BUCKET E) k s1) = Inr st'"
      "fst (direct_readDocument P E k w) = Inr d'"
    using that
    by (auto simp: direct_readDocument_outcome js_or_def split: prod.splits sum.splits option.splits)
  from a b show ?thesis by blast
qed

text \<open>C8, amended, at the object of \<open>blank_world\<close>.\<close>

theorem readDocument_contentType_witness:
  "fst (statObject platform0 ''docs'' ''k'' (store blank_world)) =
     Inr \<lparr>stat_size = 1, metaData = [(''content-type'', '''')]\<rparr>
   \<and> getObject platform0 ''docs'' ''k'' (store blank_world) =
     (Inr \<lparr>chunks = [[7]], stream_error = None\<rparr>, store blank_world)
   \<and> fst (readDocument platform0 env0 ''k'' blank_world) =
     Inr \<lparr>data = [7], doc_contentType = ''application/octet-stream''\<rparr>
   \<and> fst (direct_readDocument platform0 env0 ''k'' blank_world) =
     Inr \<lparr>data = [7], doc_contentType = ''application/octet-stream''\<rparr>
   \<and> doc_contentType \<lparr>data = [7], doc_contentType = ''application/octet-stream''\<rparr> =
     (case map_of [(''content-type'', '''')] ''content-type'' of
        None \<Rightarrow> ''application/octet-stream''
      | Some t \<Rightarrow> if t = '''' then ''application/octet-stream'' else t)"
proof -
  let ?st = "\<lparr>stat_size = 1, metaData = [(''content-type'', '''')]\<rparr>"
  let ?d = "\<lparr>data = [7], doc_contentType = ''application/octet-stream''\<rparr>"
  let ?str = "\<lparr>chunks = [[7]], stream_error = None\<rparr> :: s3_error stream"
  have b: "MINIO_BUCKET env0 = ''docs''" by (simp add: env0_def)
  have st: "fst (statObject platform0 (MINIO_BUCKET env0) ''k'' (store blank_world)) = Inr ?st"
    by (simp add: s3_defs example_defs)
  have get: "getObject platform0 (MINIO_BUCKET env0) ''k'' (store blank_world) = (Inr ?str, store blank_world)"
    by (simp add: s3_defs example_defs chunked.simps [of 2 "[7::8 word]"])
  have rd: "fst (readDocument platform0 env0 ''k'' blank_world) = Inr ?d"
    by (simp add: readDocument_outcome s3_defs example_defs js_or_def)
  have drd: "fst (direct_readDocument platform0 env0 ''k'' blank_world) = Inr ?d"
    by (simp add: direct_readDocument_outcome s3_defs example_defs js_or_def concat_chunked)
  note T = readDocument_contentType
    [of platform0 env0 "''k''" blank_world ?st ?d ?str "store blank_world" ?st ?d]
  from T st rd have "doc_contentType ?d =
      (case map_of (metaData ?st) ''content-type'' of
         None \<Rightarrow> ''application/octet-stream''
       | Some t \<Rightarrow> if t = '''' then ''application/octet-stream'' else t)"
    by blast
  then show ?thesis using st get rd drd by (simp add: b)
qed

subsection \<open>C9: the size in the metadata\<close>

text \<open>
  C9: over the reference store, after createDocument (of either module) has uploaded a
  file, the \<open>size\<close> that getDocumentMetadata returns for its identifier is the number of
  bytes of the file. For any store, that \<open>size\<close> is the \<^verbatim>\<open>size\<close> of the record
  \<^verbatim>\<open>statObject\<close> answered, unchanged.
\<close>

theorem metadata_size_is_byte_length:
  "(fst (createDocument (s3_platform ep gen) E f x w) = Inr r \<longrightarrow>
      map_sum id md_size
        (fst (getDocumentMetadata (s3_platform ep gen) E (docId r)
           (snd (createDocument (s3_platform ep gen) E f x w)))) = Inr (length (content f)))
   \<and> (fst (direct_createDocument (s3_platform ep gen) E f w) = Inr d \<longrightarrow>
      map_sum id md_size
        (fst (getDocumentMetadata (s3_platform ep gen) E d
           (snd (direct_createDocument (s3_platform ep gen) E f w)))) = Inr (length (content f)))
   \<and> (fst (statObject P (MINIO_BUCKET E') k (store w')) = Inr st \<longrightarrow>
      map_sum id md_size (fst (getDocumentMetadata P E' k w')) = Inr (stat_size st))"
proof -
  let ?ob = "\<lparr>body = content f, meta = [(''content-type'', file_type f)]\<rparr>"
  have a: "map_of (objects (store (snd (createDocument (s3_platform ep gen) E f x w))))
             (MINIO_BUCKET E, gen (draws w)) = Some ?ob"
    by (simp add: s3_createDocument s3_store_lookup)
  have b: "map_of (objects (store (snd (direct_createDocument (s3_platform ep gen) E f w))))
             (MINIO_BUCKET E, gen (draws w)) = Some ?ob"
    by (simp add: s3_direct_createDocument s3_store_lookup)
  have c: "fst (statObject P (MINIO_BUCKET E') k (store w')) = Inr st \<longrightarrow>
      map_sum id md_size (fst (getDocumentMetadata P E' k w')) = Inr (stat_size st)"
    by (simp add: getDocumentMetadata_outcome)
  show ?thesis
    using s3_getDocumentMetadata [OF a, of ep gen] s3_getDocumentMetadata [OF b, of ep gen] c
    by (auto simp: s3_createDocument s3_direct_createDocument)
qed

text \<open>C9 at the upload of \<open>file0\<close>, and at the one-byte object of \<open>blank_world\<close>.\<close>

theorem metadata_size_is_byte_length_witness:
  "fst (createDocument platform0 env0 file0 None world0) =
     Inr \<lparr>docId = ''doc-'', url = ''https://s3.test:9000/docs/doc-''\<rparr>
   \<and> fst (direct_createDocument platform0 env0 file0 world0) = Inr ''doc-''
   \<and> fst (statObject platform0 ''docs'' ''k'' (store blank_world)) =
       Inr \<lparr>stat_size = 1, metaData = [(''content-type'', [])]\<rparr>
   \<and> map_sum id md_size
       (fst (getDocumentMetadata platform0 env0 ''doc-''
          (snd (createDocument platform0 env0 file0 None world0)))) = Inr 3
   \<and> map_sum id md_size
       (fst (getDocumentMetadata platform0 env0 ''doc-''
          (snd (direct_createDocument platform0 env0 file0 world0)))) = Inr 3
   \<and> map_sum id md_size (fst (getDocumentMetadata platform0 env0 ''k'' blank_world)) = Inr 1"
proof -
  have up: "fst (createDocument platform0 env0 file0 None world0) =
      Inr \<lparr>docId = ''doc-'', url = ''https://s3.test:9000/docs/doc-''\<rparr>"
    by (simp add: platform0_def s3_createDocument env0_def world0_def gen0_def)
  have put: "fst (direct_createDocument platform0 env0 file0 world0) = Inr ''doc-''"
    by (simp add: platform0_def s3_direct_createDocument world0_def gen0_def)
  have st: "fst (statObject platform0 (MINIO_BUCKET env0) ''k'' (store blank_world)) =
      Inr \<lparr>stat_size = 1, metaData = [(''content-type'', [])]\<rparr>"
    by (simp add: platform0_def s3_platform_def s3_statObject_def blank_world_def env0_def)
  have len: "length (content file0) = 3"
    by (simp add: file0_def)
  show ?thesis
    using metadata_size_is_byte_length
      [of "''https://s3.test:9000''" gen0 env0 file0 None world0
          "\<lparr>docId = ''doc-'', url = ''https://s3.test:9000/docs/doc-''\<rparr>" "''doc-''"
          platform0 env0 "''k''" blank_world "\<lparr>stat_size = 1, metaData = [(''content-type'', [])]\<rparr>"]
      up put st len
    by (simp add: platform0_def env0_def)
qed

subsection \<open>C10: the response of the upload is not inspected\<close>

text \<open>
  C10: when signing succeeds and the \<^verbatim>\<open>fetch\<close> of the upload resolves, with any
  response at all, createDocument returns the descriptor; it fails exactly when signing
  throws or the \<^verbatim>\<open>fetch\<close> rejects.
\<close>

theorem createDocument_ignores_put_response:
  "(presignedPutObject P (MINIO_BUCKET E) (v4 P (draws w)) (case x of None \<Rightarrow> 3600 | Some n \<Rightarrow> n) (store w) = (Inr u, s1)
      \<and> fetch P (put_request u f) s1 = (Inr r, s2)
    \<longrightarrow> fst (createDocument P E f x w) =
          Inr \<lparr>docId = v4 P (draws w),
               url = MINIO_URL E @ ''/'' @ MINIO_BUCKET E @ ''/'' @ v4 P (draws w)\<rparr>)
   \<and> isl (fst (createDocument P E f x w)) =
       (case presignedPutObject P (MINIO_BUCKET E) (v4 P (draws w)) (case x of None \<Rightarrow> 3600 | Some n \<Rightarrow> n) (store w) of
          (Inl e, s) \<Rightarrow> True
        | (Inr u', s) \<Rightarrow> isl (fst (fetch P (put_request u' f) s)))"
  using createDocument_outcome [of P E f x w]
  by (auto simp: expiry_or_default_def split: prod.splits sum.splits)

text \<open>
  C10 at a store that answers the upload with status 403, as it does for a signed URL
  that has expired: createDocument returns the descriptor all the same.
\<close>

theorem createDocument_ignores_put_response_witness:
  "presignedPutObject stale_platform ''docs'' ''doc-'' 3600 (store world0) =
     (Inr ''https://s3.test:9000/docs/doc-?X-Amz-Signature=PUT'', store world0)
   \<and> fetch stale_platform (put_request ''https://s3.test:9000/docs/doc-?X-Amz-Signature=PUT'' file0) (store world0) =
     (Inr \<lparr>status = 403, arrayBuffer = Inr []\<rparr>, store world0)
   \<and> fst (createDocument stale_platform env0 file0 None world0) =
     Inr \<lparr>docId = ''doc-'', url = ''https://s3.test:9000/docs/doc-''\<rparr>"
proof -
  let ?u = "''https://s3.test:9000/docs/doc-?X-Amz-Signature=PUT''"
  have ids: "MINIO_BUCKET env0 = ''docs''" "v4 stale_platform (draws world0) = ''doc-''"
    "MINIO_URL env0 = ''https://s3.test:9000''"
    by (simp_all add: s3_defs example_defs)
  have sign: "presignedPutObject stale_platform ''docs'' ''doc-'' 3600 (store world0) = (Inr ?u, store world0)"
    by (simp add: s3_defs example_defs)
  have put: "fetch stale_platform (put_request ?u file0) (store world0) =
      (Inr \<lparr>status = 403, arrayBuffer = Inr []\<rparr>, store world0)"
    by (simp add: s3_defs example_defs)
  show ?thesis
    using createDocument_ignores_put_response
      [of stale_platform env0 world0 None ?u "store world0" file0 "\<lparr>status = 403, arrayBuffer = Inr []\<rparr>" "store world0"]
      sign put
    by (simp add: ids)
qed

end
